theory Spec2Isabelle
  imports Complex_Main "HOL-Library.Sublist" "HOL-Library.Char_ord" "HOL-Library.List_Lexorder"
begin

section \<open>JavaScript values used by the program\<close>

text \<open>
  Errors are values. \<open>Error\<close> is the generic JavaScript error with its message,
  \<open>TokenExpiredError\<close> the subclass declared in lib/stockbit, \<open>TypeError\<close> what the
  runtime throws when a property of \<open>null\<close> or \<open>undefined\<close> is read or a non-function
  is called. \<open>Thrown\<close> is a thrown value that is not an instance of \<open>Error\<close>, such as
  the error object of a store reply; its string is what \<open>String\<close> makes of it.
  \<open>errorMessage\<close> is \<open>error instanceof Error ? error.message : String(error)\<close>.
\<close>

datatype error = Error string | TokenExpiredError string | TypeError string | Thrown string

fun errorMessage :: "error \<Rightarrow> string" where
  "errorMessage (Error m) = m"
| "errorMessage (TokenExpiredError m) = m"
| "errorMessage (TypeError m) = m"
| "errorMessage (Thrown t) = t"

text \<open>
  A JavaScript number is idealised: \<open>Num x\<close> is a finite number with its exact value,
  \<open>PosInf\<close> and \<open>NegInf\<close> the two infinities, \<open>NaN\<close> not-a-number. Rounding to
  binary64 is not modelled; the sign of a difference and the result of \<open>Math.round\<close>
  do not depend on it.
\<close>

datatype jsnum = NaN | NegInf | Num real | PosInf

text \<open>Truthiness of a string, of a possibly missing string, and of a number.\<close>

definition truthy_str :: "string option \<Rightarrow> bool" where
  "truthy_str v = (case v of None \<Rightarrow> False | Some t \<Rightarrow> t \<noteq> [])"

fun truthy_num :: "jsnum \<Rightarrow> bool" where
  "truthy_num NaN = False"
| "truthy_num (Num x) = (x \<noteq> 0)"
| "truthy_num NegInf = True"
| "truthy_num PosInf = True"

text \<open>The operators \<open>-\<close>, \<open><\<close>, \<open><=\<close> and \<open>Math.round\<close> on numbers.\<close>

fun js_sub :: "jsnum \<Rightarrow> jsnum \<Rightarrow> jsnum" where
  "js_sub NaN _ = NaN"
| "js_sub _ NaN = NaN"
| "js_sub (Num x) (Num y) = Num (x - y)"
| "js_sub (Num x) PosInf = NegInf"
| "js_sub (Num x) NegInf = PosInf"
| "js_sub PosInf PosInf = NaN"
| "js_sub PosInf _ = PosInf"
| "js_sub NegInf NegInf = NaN"
| "js_sub NegInf _ = NegInf"

fun js_less :: "jsnum \<Rightarrow> jsnum \<Rightarrow> bool" where
  "js_less NaN _ = False"
| "js_less _ NaN = False"
| "js_less (Num x) (Num y) = (x < y)"
| "js_less NegInf NegInf = False"
| "js_less NegInf _ = True"
| "js_less _ NegInf = False"
| "js_less PosInf _ = False"
| "js_less _ PosInf = True"


fun Math_round :: "jsnum \<Rightarrow> jsnum" where
  "Math_round (Num x) = Num (of_int \<lfloor>x + 1 / 2\<rfloor>)"
| "Math_round v = v"

text \<open>
  \<open>Array.prototype.sort\<close> with a comparator, as V8 runs it on an array of fewer than
  64 elements (the market-detector request asks for 25 brokers at most): the longest
  run at the start is found and reversed when it is strictly descending, and each
  further element is put at the place a binary search in the sorted part gives. A
  comparator's result counts as negative when it is below zero; \<open>NaN\<close> counts as zero.
  Whenever the comparator is consistent, the language fixes the result, for every
  length and engine: the stable sort.
\<close>

definition negative :: "jsnum \<Rightarrow> bool" where
  "negative v = js_less v (Num 0)"

function binary_place :: "('a \<Rightarrow> 'a \<Rightarrow> jsnum) \<Rightarrow> 'a \<Rightarrow> 'a list \<Rightarrow> nat \<Rightarrow> nat \<Rightarrow> nat" where
  "binary_place cmp pivot xs left right =
     (if left < right
      then (let mid = left + (right - left) div 2
            in if negative (cmp pivot (xs ! mid))
               then binary_place cmp pivot xs left mid
               else binary_place cmp pivot xs (mid + 1) right)
      else left)"
  by pat_completeness auto
termination
  by (relation "measure (\<lambda>(cmp, pivot, xs, left, right). right - left)") auto

declare binary_place.simps [simp del]

fun insert_rest :: "('a \<Rightarrow> 'a \<Rightarrow> jsnum) \<Rightarrow> 'a list \<Rightarrow> 'a list \<Rightarrow> 'a list" where
  "insert_rest cmp acc [] = acc"
| "insert_rest cmp acc (pivot # rest) =
     (let k = binary_place cmp pivot acc 0 (length acc)
      in insert_rest cmp (take k acc @ pivot # drop k acc) rest)"

fun split_run :: "('a \<Rightarrow> 'a \<Rightarrow> jsnum) \<Rightarrow> bool \<Rightarrow> 'a \<Rightarrow> 'a list \<Rightarrow> 'a list \<times> 'a list" where
  "split_run cmp isDescending previous [] = ([], [])"
| "split_run cmp isDescending previous (x # xs) =
     (if (if isDescending then \<not> negative (cmp x previous) else negative (cmp x previous))
      then ([], x # xs)
      else (let (run, rest) = split_run cmp isDescending x xs in (x # run, rest)))"

fun js_sort :: "('a \<Rightarrow> 'a \<Rightarrow> jsnum) \<Rightarrow> 'a list \<Rightarrow> 'a list" where
  "js_sort cmp [] = []"
| "js_sort cmp [x] = [x]"
| "js_sort cmp (x # y # zs) =
     (let isDescending = negative (cmp y x);
          (run, rest) = split_run cmp isDescending y zs
      in insert_rest cmp (if isDescending then rev (x # y # run) else x # y # run) rest)"

text \<open>\<open>String.prototype.includes\<close>: the argument occurs as a contiguous substring.\<close>

fun str_includes :: "string \<Rightarrow> string \<Rightarrow> bool" where
  "str_includes [] sub = (sub = [])"
| "str_includes (c # cs) sub = (prefix sub (c # cs) \<or> str_includes cs sub)"

text \<open>The decimal numeral of a natural number, as a template literal prints it.\<close>

definition digit_char :: "nat \<Rightarrow> char" where
  "digit_char d = ''0123456789'' ! d"

fun decimal :: "nat \<Rightarrow> string" where
  "decimal n = (if n < 10 then [digit_char n] else decimal (n div 10) @ [digit_char (n mod 10)])"

declare decimal.simps [simp del]


section \<open>lib/supabase: the session table\<close>

text \<open>
  The table \<open>session\<close> is keyed by \<open>key\<close> (the conflict target of \<open>upsertSession\<close>), so
  it is a map from the key to the row. The requests sent to the store are recorded in
  \<open>store_log\<close>. \<open>getSessionValue\<close> returns \<open>null\<close> on an error of the store as on a
  missing row, so the missing row stands for both.
\<close>

record session_row =
  session_value :: "string option"
  is_valid :: "bool option"
  last_used_at :: "int option"

datatype store_request = Select string | UpdateIsValid string | UpdateLastUsed string

record api_state =
  cachedToken :: "string option"
  tokenLastFetched :: int
  session :: "string \<rightharpoonup> session_row"
  env_STOCKBIT_JWT_TOKEN :: "string option"
  store_log :: "store_request list"

definition getSessionValue :: "string \<Rightarrow> api_state \<Rightarrow> string option \<times> api_state" where
  "getSessionValue key s =
     (let s' = s\<lparr>store_log := store_log s @ [Select key]\<rparr>
      in case session s key of
           None \<Rightarrow> (None, s')
         | Some row \<Rightarrow> (session_value row, s'))"





section \<open>lib/stockbit: the token cache and the response check\<close>

definition TOKEN_CACHE_DURATION :: int where
  "TOKEN_CACHE_DURATION = 60000"

text \<open>\<open>getAuthToken\<close>; \<open>now\<close> is the value of \<open>Date.now()\<close> at the call.\<close>

definition getAuthToken :: "int \<Rightarrow> api_state \<Rightarrow> (error + string) \<times> api_state" where
  "getAuthToken now s =
     (if truthy_str (cachedToken s) \<and> now - tokenLastFetched s < TOKEN_CACHE_DURATION
      then (Inr (the (cachedToken s)), s)
      else
        (let (token, s1) = getSessionValue ''stockbit_token'' s
         in if \<not> truthy_str token
            then (let envToken = env_STOCKBIT_JWT_TOKEN s1
                  in if \<not> truthy_str envToken
                     then (Inl (Error ''STOCKBIT_JWT_TOKEN not found in database or environment''), s1)
                     else (Inr (the envToken), s1))
            else (Inr (the token), s1\<lparr>cachedToken := token, tokenLastFetched := now\<rparr>)))"

text \<open>
  A response of \<open>fetch\<close>: \<open>ok\<close> is true exactly for the statuses 200 to 299.
\<close>

record response =
  status :: nat
  statusText :: string




section \<open>lib/types and lib/stockbit: the market-detector response\<close>

text \<open>
  The response is parsed JSON and is not validated, so every level that the code reads
  with \<open>?.\<close> may be missing (\<open>None\<close>). The field \<open>brokers_buy\<close>, which the code tests
  with \<open>Array.isArray\<close>, is \<open>Missing\<close> (\<open>null\<close> or \<open>undefined\<close>), \<open>NotArray\<close> (a JSON
  number, boolean or object; a JSON string is not modelled) or an array. The numeric
  strings of the interface are kept as strings; \<open>Number\<close>, the conversion of the
  language, is the parameter \<open>toNumber\<close> of the functions that call it.
\<close>

record BrokerBuyItem =
  netbs_broker_code :: string
  bval :: string
  blot :: string
  netbs_buy_avg_price :: string
  buy_type :: string

record BrokerSellItem =
  seller_broker_code :: string
  sval :: string
  slot :: string
  netbs_sell_avg_price :: string
  sell_type :: string

record BrokerTopStat =
  vol :: jsnum
  percent :: jsnum
  amount :: jsnum
  accdist :: string

datatype 'a array_field = Missing | NotArray | Array "'a list"

record BrokerSummaryJson =
  brokers_buy :: "BrokerBuyItem array_field"
  brokers_sell :: "BrokerSellItem array_field"

record BrokerDetector =
  top1 :: "BrokerTopStat option"
  top3 :: "BrokerTopStat option"
  top5 :: "BrokerTopStat option"
  avg :: "BrokerTopStat option"
  total_buyer :: "jsnum option"
  total_seller :: "jsnum option"
  number_broker_buysell :: "jsnum option"
  broker_accdist :: "string option"
  volume :: "jsnum option"
  detector_value :: "jsnum option"
  average :: "jsnum option"

record MarketDetectorData =
  broker_summary :: "BrokerSummaryJson option"
  bandar_detector :: "BrokerDetector option"

record MarketDetectorResponse =
  data :: "MarketDetectorData option"

record BrokerData =
  bandar :: string
  barangBandar :: jsnum
  rataRataBandar :: jsnum

text \<open>\<open>marketDetectorData?.data?.broker_summary\<close> and \<open>?.brokers_buy\<close>, \<open>?.bandar_detector\<close>.\<close>

definition summary_of :: "MarketDetectorResponse option \<Rightarrow> BrokerSummaryJson option" where
  "summary_of m =
     (case m of None \<Rightarrow> None
      | Some r \<Rightarrow> (case data r of None \<Rightarrow> None | Some d \<Rightarrow> broker_summary d))"

definition brokers_of :: "MarketDetectorResponse option \<Rightarrow> BrokerBuyItem array_field" where
  "brokers_of m = (case summary_of m of None \<Rightarrow> Missing | Some b \<Rightarrow> brokers_buy b)"

definition detector_of :: "MarketDetectorResponse option \<Rightarrow> BrokerDetector option" where
  "detector_of m =
     (case m of None \<Rightarrow> None
      | Some r \<Rightarrow> (case data r of None \<Rightarrow> None | Some d \<Rightarrow> bandar_detector d))"

text \<open>The comparator \<open>(a, b) => Number(b.bval) - Number(a.bval)\<close>.\<close>

definition by_bval_desc :: "(string \<Rightarrow> jsnum) \<Rightarrow> BrokerBuyItem \<Rightarrow> BrokerBuyItem \<Rightarrow> jsnum" where
  "by_bval_desc toNumber x y = js_sub (toNumber (bval y)) (toNumber (bval x))"

definition broker_data :: "(string \<Rightarrow> jsnum) \<Rightarrow> BrokerBuyItem \<Rightarrow> BrokerData" where
  "broker_data toNumber topBroker =
     \<lparr>bandar = netbs_broker_code topBroker,
      barangBandar = Math_round (toNumber (blot topBroker)),
      rataRataBandar = Math_round (toNumber (netbs_buy_avg_price topBroker))\<rparr>"

text \<open>\<open>getTopBroker\<close> of lib/stockbit: \<open>null\<close> when there is no broker list.\<close>

definition getTopBroker :: "(string \<Rightarrow> jsnum) \<Rightarrow> MarketDetectorResponse option \<Rightarrow> BrokerData option" where
  "getTopBroker toNumber m =
     (case brokers_of m of
        Missing \<Rightarrow> None
      | NotArray \<Rightarrow> None
      | Array brokers \<Rightarrow>
          if length brokers = 0 then None
          else Some (broker_data toNumber (hd (js_sort (by_bval_desc toNumber) brokers))))"

text \<open>The older copy of \<open>getTopBroker\<close>, which throws when there is no broker list.\<close>

definition getTopBroker_old :: "(string \<Rightarrow> jsnum) \<Rightarrow> MarketDetectorResponse option \<Rightarrow> error + BrokerData" where
  "getTopBroker_old toNumber m =
     (case brokers_of m of
        Missing \<Rightarrow> Inl (Error ''No broker data found in data.broker_summary.brokers_buy'')
      | NotArray \<Rightarrow> Inl (Error ''No broker data found in data.broker_summary.brokers_buy'')
      | Array brokers \<Rightarrow>
          if length brokers = 0
          then Inl (Error ''No broker data found in data.broker_summary.brokers_buy'')
          else Inr (broker_data toNumber (hd (js_sort (by_bval_desc toNumber) brokers))))"




text \<open>
  \<open>getBrokerSummary\<close> of lib/stockbit. \<open>x || d\<close> keeps a truthy \<open>x\<close>; an object is
  truthy, the numbers \<open>0\<close> and \<open>NaN\<close> and the empty string are not.
  \<open>xs?.slice(0, 4) || []\<close> is the empty list for a missing \<open>xs\<close> and the first four
  elements of an array; on a number, boolean or object \<open>slice\<close> is \<open>undefined\<close> and the
  call throws.
\<close>

record DetectorSummary =
  d_top1 :: BrokerTopStat
  d_top3 :: BrokerTopStat
  d_top5 :: BrokerTopStat
  d_avg :: BrokerTopStat
  d_total_buyer :: jsnum
  d_total_seller :: jsnum
  d_number_broker_buysell :: jsnum
  d_broker_accdist :: string
  d_volume :: jsnum
  d_value :: jsnum
  d_average :: jsnum

record BrokerSummaryData =
  detector :: DetectorSummary
  topBuyers :: "BrokerBuyItem list"
  topSellers :: "BrokerSellItem list"

definition default_stat :: BrokerTopStat where
  "default_stat = \<lparr>vol = Num 0, percent = Num 0, amount = Num 0, accdist = ''-''\<rparr>"

definition stat_or_default :: "BrokerDetector option \<Rightarrow> (BrokerDetector \<Rightarrow> BrokerTopStat option) \<Rightarrow> BrokerTopStat" where
  "stat_or_default d f =
     (case d of None \<Rightarrow> default_stat
      | Some x \<Rightarrow> (case f x of None \<Rightarrow> default_stat | Some t \<Rightarrow> t))"

definition num_or_zero :: "BrokerDetector option \<Rightarrow> (BrokerDetector \<Rightarrow> jsnum option) \<Rightarrow> jsnum" where
  "num_or_zero d f =
     (case d of None \<Rightarrow> Num 0
      | Some x \<Rightarrow> (case f x of None \<Rightarrow> Num 0 | Some n \<Rightarrow> if truthy_num n then n else Num 0))"

definition str_or_dash :: "BrokerDetector option \<Rightarrow> (BrokerDetector \<Rightarrow> string option) \<Rightarrow> string" where
  "str_or_dash d f =
     (case d of None \<Rightarrow> ''-''
      | Some x \<Rightarrow> (if truthy_str (f x) then the (f x) else ''-''))"

definition slice4_or_empty :: "string \<Rightarrow> 'a array_field \<Rightarrow> error + 'a list" where
  "slice4_or_empty what xs =
     (case xs of
        Missing \<Rightarrow> Inr []
      | NotArray \<Rightarrow> Inl (TypeError (what @ ''.slice is not a function''))
      | Array ys \<Rightarrow> Inr (take 4 ys))"

definition getBrokerSummary :: "MarketDetectorResponse option \<Rightarrow> error + BrokerSummaryData" where
  "getBrokerSummary m =
     (let d = detector_of m;
          brokerSummary = summary_of m;
          det = \<lparr>d_top1 = stat_or_default d top1,
                 d_top3 = stat_or_default d top3,
                 d_top5 = stat_or_default d top5,
                 d_avg = stat_or_default d avg,
                 d_total_buyer = num_or_zero d total_buyer,
                 d_total_seller = num_or_zero d total_seller,
                 d_number_broker_buysell = num_or_zero d number_broker_buysell,
                 d_broker_accdist = str_or_dash d broker_accdist,
                 d_volume = num_or_zero d volume,
                 d_value = num_or_zero d detector_value,
                 d_average = num_or_zero d average\<rparr>
      in case slice4_or_empty ''brokerSummary?.brokers_buy?''
                (case brokerSummary of None \<Rightarrow> Missing | Some b \<Rightarrow> brokers_buy b) of
           Inl e \<Rightarrow> Inl e
         | Inr buyers \<Rightarrow>
             (case slice4_or_empty ''brokerSummary?.brokers_sell?''
                     (case brokerSummary of None \<Rightarrow> Missing | Some b \<Rightarrow> brokers_sell b) of
                Inl e \<Rightarrow> Inl e
              | Inr sellers \<Rightarrow> Inr \<lparr>detector = det, topBuyers = buyers, topSellers = sellers\<rparr>))"

text \<open>
  The older copy of \<open>getBrokerSummary\<close>, beside the older \<open>getTopBroker\<close>: it throws
  when there is no detector and copies the detector's fields as they are.
\<close>

record BrokerSummaryData_old =
  detector_old :: BrokerDetector
  topBuyers_old :: "BrokerBuyItem list"
  topSellers_old :: "BrokerSellItem list"

definition getBrokerSummary_old :: "MarketDetectorResponse option \<Rightarrow> error + BrokerSummaryData_old" where
  "getBrokerSummary_old m =
     (let brokerSummary = summary_of m
      in case detector_of m of
           None \<Rightarrow> Inl (Error ''No bandar_detector data found in response'')
         | Some d \<Rightarrow>
             (case slice4_or_empty ''brokerSummary?.brokers_buy?''
                     (case brokerSummary of None \<Rightarrow> Missing | Some b \<Rightarrow> brokers_buy b) of
                Inl e \<Rightarrow> Inl e
              | Inr buyers \<Rightarrow>
                  (case slice4_or_empty ''brokerSummary?.brokers_sell?''
                          (case brokerSummary of None \<Rightarrow> Missing | Some b \<Rightarrow> brokers_sell b) of
                     Inl e \<Rightarrow> Inl e
                   | Inr sellers \<Rightarrow>
                       Inr \<lparr>detector_old = d, topBuyers_old = buyers, topSellers_old = sellers\<rparr>)))"


section \<open>lib/supabase: the table of analysis records\<close>

text \<open>
  The columns of \<open>stock_queries\<close> which the code writes. The column \<open>id\<close> is
  \<open>row_id\<close>, the columns \<open>a\<close> and \<open>p\<close> are \<open>a_col\<close> and \<open>p_col\<close>, \<open>status\<close> is
  \<open>status_col\<close>, and \<open>bandar\<close>, \<open>harga\<close>, \<open>fraksi\<close> carry the same suffix.

  A property of a payload is \<open>Absent\<close> (the object has no such key), \<open>Undefined\<close> (the
  key is there with the value \<open>undefined\<close>) or \<open>Given\<close> with its value. The client
  names every key of the object in the request's \<open>columns\<close> and sends the object as
  JSON, which leaves out an undefined property and writes \<open>null\<close> for a number that
  is \<open>NaN\<close> or infinite; the store takes \<open>NULL\<close> for a named column that the body lacks.
  So an absent property leaves its column alone, an undefined one sets it to \<open>NULL\<close>.
  In a row \<open>None\<close> is \<open>NULL\<close>.
\<close>

datatype 'a property = Absent | Undefined | Given 'a

record ('s, 'n) analysis_columns =
  from_date :: 's
  to_date :: 's
  emiten :: string
  sector :: 's
  bandar_col :: 's
  barang_bandar :: 'n
  rata_rata_bandar :: 'n
  harga_col :: 'n
  ara :: 'n
  arb :: 'n
  fraksi_col :: 'n
  total_bid :: 'n
  total_offer :: 'n
  total_papan :: 'n
  rata_rata_bid_ofer :: 'n
  a_col :: 'n
  p_col :: 'n
  target_realistis :: 'n
  target_max :: 'n
  status_col :: 's
  error_message :: 's

type_synonym payload = "(string property, jsnum property) analysis_columns"

record stock_query = "(string option, real option) analysis_columns" +
  row_id :: nat
  real_harga :: "real option"
  max_harga :: "real option"

fun json_number :: "jsnum \<Rightarrow> real option" where
  "json_number (Num x) = Some x"
| "json_number v = None"

fun set_str :: "string property \<Rightarrow> string option \<Rightarrow> string option" where
  "set_str Absent old = old"
| "set_str Undefined old = None"
| "set_str (Given x) old = Some x"

fun set_num :: "jsnum property \<Rightarrow> real option \<Rightarrow> real option" where
  "set_num Absent old = old"
| "set_num Undefined old = None"
| "set_num (Given n) old = json_number n"

text \<open>
  \<open>upsert([data], { onConflict: 'from_date,emiten' })\<close>: a row with the payload's
  \<open>from_date\<close> and \<open>emiten\<close> takes the payload's columns and keeps its others; without
  such a row a new one is inserted, with \<open>NULL\<close> in the columns the payload does not
  name (the defaults of the schema are not among the sources). A \<open>NULL\<close> \<open>from_date\<close>
  conflicts with no row. The rows written are returned.
\<close>

definition write_columns :: "payload \<Rightarrow> stock_query \<Rightarrow> stock_query" where
  "write_columns d r =
     r\<lparr>from_date := set_str (from_date d) (from_date r),
       to_date := set_str (to_date d) (to_date r),
       emiten := emiten d,
       sector := set_str (sector d) (sector r),
       bandar_col := set_str (bandar_col d) (bandar_col r),
       barang_bandar := set_num (barang_bandar d) (barang_bandar r),
       rata_rata_bandar := set_num (rata_rata_bandar d) (rata_rata_bandar r),
       harga_col := set_num (harga_col d) (harga_col r),
       ara := set_num (ara d) (ara r),
       arb := set_num (arb d) (arb r),
       fraksi_col := set_num (fraksi_col d) (fraksi_col r),
       total_bid := set_num (total_bid d) (total_bid r),
       total_offer := set_num (total_offer d) (total_offer r),
       total_papan := set_num (total_papan d) (total_papan r),
       rata_rata_bid_ofer := set_num (rata_rata_bid_ofer d) (rata_rata_bid_ofer r),
       a_col := set_num (a_col d) (a_col r),
       p_col := set_num (p_col d) (p_col r),
       target_realistis := set_num (target_realistis d) (target_realistis r),
       target_max := set_num (target_max d) (target_max r),
       status_col := set_str (status_col d) (status_col r),
       error_message := set_str (error_message d) (error_message r)\<rparr>"

definition null_row :: "nat \<Rightarrow> stock_query" where
  "null_row i =
     \<lparr>from_date = None, to_date = None, emiten = [], sector = None, bandar_col = None,
      barang_bandar = None, rata_rata_bandar = None, harga_col = None, ara = None, arb = None,
      fraksi_col = None, total_bid = None, total_offer = None, total_papan = None,
      rata_rata_bid_ofer = None, a_col = None, p_col = None, target_realistis = None,
      target_max = None, status_col = None, error_message = None,
      row_id = i, real_harga = None, max_harga = None\<rparr>"

definition fresh_id :: "stock_query list \<Rightarrow> nat" where
  "fresh_id tbl = Suc (foldr max (map row_id tbl) 0)"

definition conflicts :: "payload \<Rightarrow> stock_query \<Rightarrow> bool" where
  "conflicts d r =
     (case from_date d of
        Given dt \<Rightarrow> from_date r = Some dt \<and> emiten r = emiten d
      | Undefined \<Rightarrow> False
      | Absent \<Rightarrow> False)"

definition upsert :: "payload \<Rightarrow> stock_query list \<Rightarrow> stock_query list \<times> stock_query list" where
  "upsert d tbl =
     (if list_ex (conflicts d) tbl
      then (map (write_columns d) (filter (conflicts d) tbl),
            map (\<lambda>r. if conflicts d r then write_columns d r else r) tbl)
      else (let r = write_columns d (null_row (fresh_id tbl)) in ([r], tbl @ [r])))"

text \<open>
  \<open>saveStockQuery\<close> and \<open>saveWatchlistAnalysis\<close> send the same request; the type of
  the first has no \<open>status\<close> and no \<open>error_message\<close>. \<open>answer\<close> is the error of the
  store's reply, if any: it is thrown, and the table is then taken as unchanged.
\<close>

definition saveStockQuery ::
  "error option \<Rightarrow> payload \<Rightarrow> stock_query list \<Rightarrow> (error + stock_query list) \<times> stock_query list" where
  "saveStockQuery answer d tbl =
     (case answer of
        Some e \<Rightarrow> (Inl e, tbl)
      | None \<Rightarrow> (let (result, tbl') = upsert d tbl in (Inr result, tbl')))"

definition saveWatchlistAnalysis ::
  "error option \<Rightarrow> payload \<Rightarrow> stock_query list \<Rightarrow> (error + stock_query list) \<times> stock_query list" where
  "saveWatchlistAnalysis answer d tbl =
     (case answer of
        Some e \<Rightarrow> (Inl e, tbl)
      | None \<Rightarrow> (let (result, tbl') = upsert d tbl in (Inr result, tbl')))"

text \<open>
  \<open>updatePreviousDayRealPrice\<close>. Dates are ISO strings (\<open>YYYY-MM-DD\<close>), compared as
  strings. The query orders the matching rows by \<open>from_date\<close>, latest first, and takes
  one; among rows of the same date the earlier of the table is taken here.
  \<open>find_answer\<close> and \<open>update_answer\<close> are the errors of the store's replies to the
  query and to the update, if any: after either the function returns \<open>null\<close>, and the
  table is taken as unchanged.
\<close>

definition is_previous :: "string \<Rightarrow> string \<Rightarrow> stock_query \<Rightarrow> bool" where
  "is_previous e currentDate r =
     (emiten r = e \<and> status_col r = Some ''success'' \<and>
      (case from_date r of None \<Rightarrow> False | Some d \<Rightarrow> d < currentDate))"

fun latest :: "stock_query list \<Rightarrow> stock_query option" where
  "latest [] = None"
| "latest (r # rs) =
     (case latest rs of
        None \<Rightarrow> Some r
      | Some r' \<Rightarrow> if the (from_date r) < the (from_date r') then Some r' else Some r)"

definition set_prices :: "jsnum \<Rightarrow> jsnum option \<Rightarrow> stock_query \<Rightarrow> stock_query" where
  "set_prices price maxPrice r =
     (case maxPrice of
        None \<Rightarrow> r\<lparr>real_harga := json_number price\<rparr>
      | Some m \<Rightarrow> r\<lparr>real_harga := json_number price, max_harga := json_number m\<rparr>)"

definition updatePreviousDayRealPrice ::
  "error option \<Rightarrow> error option \<Rightarrow> string \<Rightarrow> string \<Rightarrow> jsnum \<Rightarrow> jsnum option \<Rightarrow> stock_query list
     \<Rightarrow> stock_query list option \<times> stock_query list" where
  "updatePreviousDayRealPrice find_answer update_answer e currentDate price maxPrice tbl =
     (case find_answer of
        Some findError \<Rightarrow> (None, tbl)
      | None \<Rightarrow>
          (case latest (filter (is_previous e currentDate) tbl) of
             None \<Rightarrow> (None, tbl)
           | Some found \<Rightarrow>
               (case update_answer of
                  Some updateError \<Rightarrow> (None, tbl)
                | None \<Rightarrow>
                    (let tbl' = map (\<lambda>r. if row_id r = row_id found then set_prices price maxPrice r else r) tbl
                     in (Some (filter (\<lambda>r. row_id r = row_id found) tbl'), tbl')))))"


section \<open>lib/supabase: the job-run log\<close>

text \<open>
  A row of \<open>background_job_logs\<close>; \<open>id\<close>, \<open>status\<close> and \<open>error_message\<close> carry the
  prefix \<open>job_\<close>. Of \<open>metadata\<close> only \<open>isTokenError\<close> is kept and of an entry's
  \<open>details\<close> what the job puts there; time stamps and durations are left out.
\<close>

datatype log_level = Info | Warn | Err

datatype details =
    NoDetails
  | Analysed jsnum jsnum
  | Failed bool string
  | Critical bool string

record log_entry =
  level :: log_level
  entry_message :: string
  entry_emiten :: "string option"
  entry_details :: details

record job_log =
  job_id :: nat
  job_name :: string
  job_status :: string
  total_items :: nat
  log_entries :: "log_entry list"
  success_count :: "nat option"
  error_count :: "nat option"
  job_error_message :: "string option"
  metadata_isTokenError :: "bool option"
  completed :: bool

record job_update =
  new_status :: string
  new_success_count :: "nat option"
  new_error_count :: "nat option"
  new_error_message :: "string option"
  new_isTokenError :: "bool option"

definition fresh_job_id :: "job_log list \<Rightarrow> nat" where
  "fresh_job_id logs = Suc (foldr max (map job_id logs) 0)"

text \<open>
  \<open>createBackgroundJobLog\<close> and \<open>updateBackgroundJobLog\<close> throw the error of the
  store's reply (\<open>answer\<close>); the update also fails when no row has the id, since it asks
  for a single row back.
\<close>

definition createBackgroundJobLog ::
  "error option \<Rightarrow> string \<Rightarrow> nat \<Rightarrow> job_log list \<Rightarrow> (error + job_log) \<times> job_log list" where
  "createBackgroundJobLog answer jobName totalItems logs =
     (case answer of
        Some e \<Rightarrow> (Inl e, logs)
      | None \<Rightarrow>
          (let j = \<lparr>job_id = fresh_job_id logs, job_name = jobName, job_status = ''running'',
                    total_items = totalItems, log_entries = [], success_count = None,
                    error_count = None, job_error_message = None,
                    metadata_isTokenError = None, completed = False\<rparr>
           in (Inr j, logs @ [j])))"

text \<open>
  \<open>appendBackgroundJobLogEntry\<close> throws nothing. It calls the stored procedure
  \<open>append_job_log_entry\<close>; the store's reply is \<open>RpcDone\<close>, \<open>RpcError\<close> (an error, which
  is logged) or \<open>RpcMissing\<close> (the store has no such procedure). In the last case the
  function reads the row's entries and writes them back with the new one; the two
  flags say whether the store answered the read and whether it did the write. Entries
  that could not be read count as none.

  Modelled from the spec: the stored procedure \<open>append_job_log_entry\<close>, which is not
  among the sources, appends the entry to the job log of the given id, as the fallback
  beside its call does.
\<close>

datatype append_answer = RpcDone | RpcMissing bool bool | RpcError

definition appendBackgroundJobLogEntry ::
  "append_answer \<Rightarrow> nat \<Rightarrow> log_entry \<Rightarrow> job_log list \<Rightarrow> job_log list" where
  "appendBackgroundJobLogEntry answer jobId entry logs =
     (case answer of
        RpcDone \<Rightarrow>
          map (\<lambda>j. if job_id j = jobId then j\<lparr>log_entries := log_entries j @ [entry]\<rparr> else j) logs
      | RpcMissing selected updated \<Rightarrow>
          (let current = (if selected then find (\<lambda>j. job_id j = jobId) logs else None);
               entries = (case current of None \<Rightarrow> [] | Some j \<Rightarrow> log_entries j) @ [entry]
           in if updated
              then map (\<lambda>j. if job_id j = jobId then j\<lparr>log_entries := entries\<rparr> else j) logs
              else logs)
      | RpcError \<Rightarrow> logs)"

definition apply_update :: "job_update \<Rightarrow> job_log \<Rightarrow> job_log" where
  "apply_update u j =
     j\<lparr>job_status := new_status u,
       success_count := (case new_success_count u of None \<Rightarrow> success_count j | Some n \<Rightarrow> Some n),
       error_count := (case new_error_count u of None \<Rightarrow> error_count j | Some n \<Rightarrow> Some n),
       job_error_message := (case new_error_message u of None \<Rightarrow> job_error_message j | Some t \<Rightarrow> Some t),
       metadata_isTokenError := new_isTokenError u,
       completed := True\<rparr>"

definition updateBackgroundJobLog ::
  "error option \<Rightarrow> nat \<Rightarrow> job_update \<Rightarrow> job_log list \<Rightarrow> (error + unit) \<times> job_log list" where
  "updateBackgroundJobLog answer jobId u logs =
     (case answer of
        Some e \<Rightarrow> (Inl e, logs)
      | None \<Rightarrow>
          if list_ex (\<lambda>j. job_id j = jobId) logs
          then (Inr (), map (\<lambda>j. if job_id j = jobId then apply_update u j else j) logs)
          else (Inl (Thrown ''[object Object]''), logs))"


section \<open>netlify/functions/analyze-watchlist-background: the batch job\<close>

text \<open>
  The order book as the job reads it. A missing \<open>close\<close> is \<open>undefined\<close>, which
  \<open>Number\<close> makes \<open>NaN\<close>; \<open>offer\<close> and \<open>bid\<close> are the \<open>price\<close> strings of their
  entries. The reply holds the order book under \<open>data\<close> or is the order book itself.
\<close>

record TotalBidOffer =
  bid_lot :: string
  offer_lot :: string

record OrderbookData =
  close :: "jsnum option"
  high :: "jsnum option"
  offer :: "string list option"
  bid :: "string list option"
  total_bid_offer :: "TotalBidOffer option"

datatype OrderbookResponse = Wrapped OrderbookData | Direct OrderbookData

fun obData_of :: "OrderbookResponse \<Rightarrow> OrderbookData" where
  "obData_of (Wrapped d) = d"
| "obData_of (Direct d) = d"

record MarketData =
  harga :: jsnum
  offerTeratas :: jsnum
  bidTerbawah :: jsnum
  totalBid :: jsnum
  totalOffer :: jsnum

record CalculatedTargets =
  fraksi :: jsnum
  totalPapan :: jsnum
  rataRataBidOfer :: jsnum
  calc_a :: jsnum
  calc_p :: jsnum
  targetRealistis1 :: jsnum
  targetMax :: jsnum

record HistoricalSummaryItem =
  hist_close :: jsnum
  hist_high :: "jsnum option"

record WatchlistItem =
  symbol :: string
  company_code :: string

text \<open>\<open>Math.max\<close> and \<open>Math.min\<close> of a list, division by 100, removal of commas.\<close>

fun js_max2 :: "jsnum \<Rightarrow> jsnum \<Rightarrow> jsnum" where
  "js_max2 NaN _ = NaN"
| "js_max2 _ NaN = NaN"
| "js_max2 x y = (if js_less x y then y else x)"

fun js_min2 :: "jsnum \<Rightarrow> jsnum \<Rightarrow> jsnum" where
  "js_min2 NaN _ = NaN"
| "js_min2 _ NaN = NaN"
| "js_min2 x y = (if js_less y x then y else x)"

definition Math_max :: "jsnum list \<Rightarrow> jsnum" where
  "Math_max xs = foldl js_max2 NegInf xs"

definition Math_min :: "jsnum list \<Rightarrow> jsnum" where
  "Math_min xs = foldl js_min2 PosInf xs"

fun div100 :: "jsnum \<Rightarrow> jsnum" where
  "div100 (Num x) = Num (x / 100)"
| "div100 v = v"

definition remove_commas :: "string \<Rightarrow> string" where
  "remove_commas t = filter (\<lambda>c. c \<noteq> CHR '','') t"

definition marketData_of :: "(string \<Rightarrow> jsnum) \<Rightarrow> OrderbookData \<Rightarrow> error + MarketData" where
  "marketData_of toNumber obData =
     (let offerPrices = map toNumber (case offer obData of None \<Rightarrow> [] | Some xs \<Rightarrow> xs);
          bidPrices = map toNumber (case bid obData of None \<Rightarrow> [] | Some xs \<Rightarrow> xs)
      in case total_bid_offer obData of
           None \<Rightarrow> Inl (TypeError ''Cannot read properties of undefined (reading 'bid')'')
         | Some t \<Rightarrow>
             Inr \<lparr>harga = (case close obData of None \<Rightarrow> NaN | Some c \<Rightarrow> c),
                  offerTeratas =
                    (if length offerPrices > 0 then Math_max offerPrices
                     else (case high obData of None \<Rightarrow> Num 0
                           | Some h \<Rightarrow> if truthy_num h then h else Num 0)),
                  bidTerbawah = (if length bidPrices > 0 then Math_min bidPrices else Num 0),
                  totalBid = toNumber (remove_commas (bid_lot t)),
                  totalOffer = toNumber (remove_commas (offer_lot t))\<rparr>)"


text \<open>
  What the world answers while one symbol is analysed: \<open>fetched\<close> is the outcome of
  the \<open>Promise.all\<close> over the three requests (the market detector, the order book, and
  the sector of the company, \<open>None\<close> when that request failed or gave none);
  \<open>save_answer\<close> is the store's reply to the upsert; \<open>history\<close> is the outcome of
  \<open>fetchHistoricalSummary\<close>; \<open>find_answer\<close> and \<open>update_answer\<close> are the store's
  replies in the backfill; \<open>log_answer\<close> is the store's reply to the one entry that
  the turn appends to the job log. \<open>calculateTargets\<close> of lib/calculations is a
  parameter of the job.
\<close>

record item_env =
  fetched :: "error + (MarketDetectorResponse option \<times> OrderbookResponse \<times> string option)"
  save_answer :: "error option"
  history :: "error + HistoricalSummaryItem list"
  find_answer :: "error option"
  update_answer :: "error option"
  log_answer :: append_answer

type_synonym targets_fun =
  "jsnum \<Rightarrow> jsnum \<Rightarrow> jsnum \<Rightarrow> jsnum \<Rightarrow> jsnum \<Rightarrow> jsnum \<Rightarrow> jsnum \<Rightarrow> error + CalculatedTargets"

record job_state =
  stock_queries :: "stock_query list"
  job_logs :: "job_log list"
  results :: "(string \<times> string) list"
  errors :: "(string \<times> string) list"

definition isTokenError :: "string \<Rightarrow> bool" where
  "isTokenError errorMsg =
     (str_includes errorMsg ''401'' \<or> str_includes errorMsg ''unauthorized'' \<or>
      str_includes errorMsg ''token'' \<or> str_includes errorMsg ''authentication'')"

text \<open>\<open>if (jobLogId) await appendBackgroundJobLogEntry(jobLogId, entry)\<close>; the id 0 is falsy.\<close>

definition has_log :: "nat option \<Rightarrow> bool" where
  "has_log jobLogId = (case jobLogId of None \<Rightarrow> False | Some j \<Rightarrow> j \<noteq> 0)"

definition log_if :: "append_answer \<Rightarrow> nat option \<Rightarrow> log_entry \<Rightarrow> job_state \<Rightarrow> job_state" where
  "log_if answer jobLogId entry s =
     (if has_log jobLogId
      then s\<lparr>job_logs := appendBackgroundJobLogEntry answer (the jobLogId) entry (job_logs s)\<rparr>
      else s)"

definition emiten_of :: "WatchlistItem \<Rightarrow> string" where
  "emiten_of item = (if symbol item \<noteq> [] then symbol item else company_code item)"

text \<open>The inner \<open>try\<close> around the backfill: its errors are logged to the console only.\<close>

definition backfill ::
  "item_env \<Rightarrow> string \<Rightarrow> string \<Rightarrow> stock_query list \<Rightarrow> stock_query list" where
  "backfill env e today tbl =
     (case history env of
        Inl updateError \<Rightarrow> tbl
      | Inr [] \<Rightarrow> tbl
      | Inr (latestData # rest) \<Rightarrow>
          snd (updatePreviousDayRealPrice (find_answer env) (update_answer env) e today
                 (hist_close latestData) (hist_high latestData) tbl))"

definition analysis_payload ::
  "string \<Rightarrow> string \<Rightarrow> string option \<Rightarrow> BrokerData \<Rightarrow> MarketData \<Rightarrow> CalculatedTargets \<Rightarrow> payload" where
  "analysis_payload today e info brokerData marketData calculated =
     \<lparr>from_date = Given today,
      to_date = Given today,
      emiten = e,
      sector = (if truthy_str info then Given (the info) else Undefined),
      bandar_col = Given (bandar brokerData),
      barang_bandar = Given (barangBandar brokerData),
      rata_rata_bandar = Given (rataRataBandar brokerData),
      harga_col = Given (harga marketData),
      ara = Given (offerTeratas marketData),
      arb = Given (bidTerbawah marketData),
      fraksi_col = Given (fraksi calculated),
      total_bid = Given (totalBid marketData),
      total_offer = Given (totalOffer marketData),
      total_papan = Given (totalPapan calculated),
      rata_rata_bid_ofer = Given (rataRataBidOfer calculated),
      a_col = Given (calc_a calculated),
      p_col = Given (calc_p calculated),
      target_realistis = Given (targetRealistis1 calculated),
      target_max = Given (targetMax calculated),
      status_col = Given ''success'',
      error_message = Absent\<rparr>"

text \<open>
  The body of the per-symbol \<open>try\<close>: \<open>Inl\<close> is an error thrown out of it (nothing has
  been written by then), \<open>Inr\<close> the state when it ends or reaches \<open>continue\<close>.
\<close>

definition item_try ::
  "(string \<Rightarrow> jsnum) \<Rightarrow> targets_fun \<Rightarrow> string \<Rightarrow> nat option \<Rightarrow> string \<Rightarrow> item_env \<Rightarrow> job_state \<Rightarrow> error + job_state" where
  "item_try toNumber calculateTargets today jobLogId e env s =
     (case fetched env of
        Inl err \<Rightarrow> Inl err
      | Inr (marketDetectorData, orderbookData, info) \<Rightarrow>
          (case getTopBroker toNumber marketDetectorData of
             None \<Rightarrow>
               Inr (log_if (log_answer env) jobLogId
                      \<lparr>level = Warn, entry_message = ''No broker data available'',
                       entry_emiten = Some e, entry_details = NoDetails\<rparr>
                      (s\<lparr>errors := errors s @ [(e, ''No broker data available'')]\<rparr>))
           | Some brokerData \<Rightarrow>
               (case marketData_of toNumber (obData_of orderbookData) of
                  Inl err \<Rightarrow> Inl err
                | Inr marketData \<Rightarrow>
                    (case calculateTargets (rataRataBandar brokerData) (barangBandar brokerData)
                            (offerTeratas marketData) (bidTerbawah marketData)
                            (div100 (totalBid marketData)) (div100 (totalOffer marketData))
                            (harga marketData) of
                       Inl err \<Rightarrow> Inl err
                     | Inr calculated \<Rightarrow>
                         (case saveWatchlistAnalysis (save_answer env)
                                 (analysis_payload today e info brokerData marketData calculated)
                                 (stock_queries s) of
                            (Inl err, tbl) \<Rightarrow> Inl err
                          | (Inr saved, tbl) \<Rightarrow>
                              (let s1 = s\<lparr>stock_queries := backfill env e today tbl\<rparr>;
                                   s2 = s1\<lparr>results := results s1 @ [(e, ''success'')]\<rparr>
                               in Inr (log_if (log_answer env) jobLogId
                                         \<lparr>level = Info, entry_message = ''Successfully analyzed'',
                                          entry_emiten = Some e,
                                          entry_details = Analysed (harga marketData) (targetRealistis1 calculated)\<rparr>
                                         s2)))))))"

text \<open>One turn of the loop: the \<open>try\<close> and its \<open>catch\<close>.\<close>

definition analyze_item ::
  "(string \<Rightarrow> jsnum) \<Rightarrow> targets_fun \<Rightarrow> string \<Rightarrow> nat option \<Rightarrow> WatchlistItem \<times> item_env \<Rightarrow> job_state \<Rightarrow> job_state" where
  "analyze_item toNumber calculateTargets today jobLogId x s =
     (let e = emiten_of (fst x)
      in case item_try toNumber calculateTargets today jobLogId e (snd x) s of
           Inr s' \<Rightarrow> s'
         | Inl err \<Rightarrow>
             (let errorMsg = errorMessage err;
                  s1 = s\<lparr>errors := errors s @ [(e, errorMsg)]\<rparr>
              in log_if (log_answer (snd x)) jobLogId
                   \<lparr>level = Err,
                    entry_message = (if isTokenError errorMsg then ''Token authentication failed'' else errorMsg),
                    entry_emiten = Some e,
                    entry_details = Failed (isTokenError errorMsg) errorMsg\<rparr>
                   s1))"

fun analyze_items ::
  "(string \<Rightarrow> jsnum) \<Rightarrow> targets_fun \<Rightarrow> string \<Rightarrow> nat option \<Rightarrow> (WatchlistItem \<times> item_env) list \<Rightarrow> job_state \<Rightarrow> job_state" where
  "analyze_items toNumber calculateTargets today jobLogId [] s = s"
| "analyze_items toNumber calculateTargets today jobLogId (x # xs) s =
     analyze_items toNumber calculateTargets today jobLogId xs
       (analyze_item toNumber calculateTargets today jobLogId x s)"

text \<open>
  The handler. \<open>watchlist\<close> is the outcome of \<open>fetchWatchlist\<close>, each item with what the
  world answers for it; the other fields are the store's replies to the requests that
  can throw: the creation of the job log, the final update, and the creation and the
  update in the top-level \<open>catch\<close>; and its reply to the entry which the \<open>catch\<close>
  appends.
\<close>

record job_env =
  watchlist :: "error + (WatchlistItem \<times> item_env) list"
  create_answer :: "error option"
  final_answer :: "error option"
  catch_append_answer :: append_answer
  catch_create_answer :: "error option"
  catch_update_answer :: "error option"

datatype job_response =
    NoItems
  | Done nat nat "nat option"
  | Failure string bool

fun http_status :: "job_response \<Rightarrow> nat" where
  "http_status NoItems = 200"
| "http_status (Done n k j) = 200"
| "http_status (Failure m t) = 500"

definition critical_message :: "string \<Rightarrow> string" where
  "critical_message errorMsg =
     (if isTokenError errorMsg
      then ''Stockbit token expired or invalid. Please refresh your token.''
      else errorMsg)"

definition failed_update :: "string \<Rightarrow> job_update" where
  "failed_update errorMsg =
     \<lparr>new_status = ''failed'', new_success_count = None, new_error_count = None,
      new_error_message = Some (critical_message errorMsg),
      new_isTokenError = Some (isTokenError errorMsg)\<rparr>"

text \<open>
  The top-level \<open>catch\<close>. With a job log it appends an entry and updates the log, and
  an error of that update leaves the handler (\<open>Inl\<close>); without one it creates a log
  and updates it, and an error of either is logged to the console only.
\<close>

definition top_level_catch ::
  "error \<Rightarrow> nat option \<Rightarrow> job_env \<Rightarrow> job_state \<Rightarrow> (error + job_response) \<times> job_state" where
  "top_level_catch err jobLogId env s =
     (let errorMsg = errorMessage err;
          reply = Failure errorMsg (isTokenError errorMsg)
      in if has_log jobLogId
         then
           (let logs1 = appendBackgroundJobLogEntry (catch_append_answer env) (the jobLogId)
                          \<lparr>level = Err, entry_message = critical_message errorMsg,
                           entry_emiten = None,
                           entry_details = Critical (isTokenError errorMsg) errorMsg\<rparr>
                          (job_logs s)
            in case updateBackgroundJobLog (catch_update_answer env) (the jobLogId)
                      (failed_update errorMsg) logs1 of
                 (Inl e2, logs2) \<Rightarrow> (Inl e2, s\<lparr>job_logs := logs2\<rparr>)
               | (Inr u, logs2) \<Rightarrow> (Inr reply, s\<lparr>job_logs := logs2\<rparr>))
         else
           (case createBackgroundJobLog (catch_create_answer env) ''analyze-watchlist'' 0 (job_logs s) of
              (Inl e2, logs1) \<Rightarrow> (Inr reply, s\<lparr>job_logs := logs1\<rparr>)
            | (Inr failedLog, logs1) \<Rightarrow>
                (case updateBackgroundJobLog (catch_update_answer env) (job_id failedLog)
                        (failed_update errorMsg) logs1 of
                   (r, logs2) \<Rightarrow> (Inr reply, s\<lparr>job_logs := logs2\<rparr>))))"

definition final_update :: "job_state \<Rightarrow> job_update" where
  "final_update s =
     \<lparr>new_status = (if length (errors s) > 0 \<and> length (results s) = 0 then ''failed'' else ''completed''),
      new_success_count = Some (length (results s)),
      new_error_count = Some (length (errors s)),
      new_error_message =
        (if length (errors s) > 0 then Some (decimal (length (errors s)) @ '' items failed'') else None),
      new_isTokenError = None\<rparr>"

text \<open>
  The body of the outer \<open>try\<close>: its outcome (\<open>Inl\<close> an error thrown out of it), the
  value of \<open>jobLogId\<close> at that moment, and the state.
\<close>

definition job_try ::
  "(string \<Rightarrow> jsnum) \<Rightarrow> targets_fun \<Rightarrow> string \<Rightarrow> job_env \<Rightarrow> job_state \<Rightarrow> (error + job_response) \<times> nat option \<times> job_state" where
  "job_try toNumber calculateTargets today env s =
     (case watchlist env of
        Inl err \<Rightarrow> (Inl err, None, s)
      | Inr watchlistItems \<Rightarrow>
          if length watchlistItems = 0 then (Inr NoItems, None, s)
          else
            (let (jobLogId, s1) =
                   (case createBackgroundJobLog (create_answer env) ''analyze-watchlist''
                           (length watchlistItems) (job_logs s) of
                      (Inl logError, logs) \<Rightarrow> (None, s)
                    | (Inr jobLog, logs) \<Rightarrow> (Some (job_id jobLog), s\<lparr>job_logs := logs\<rparr>));
                 s2 = analyze_items toNumber calculateTargets today jobLogId watchlistItems s1;
                 reply = Done (length (results s2)) (length (errors s2)) jobLogId
             in if has_log jobLogId
                then (case updateBackgroundJobLog (final_answer env) (the jobLogId)
                             (final_update s2) (job_logs s2) of
                        (Inl err, logs) \<Rightarrow> (Inl err, jobLogId, s2\<lparr>job_logs := logs\<rparr>)
                      | (Inr u, logs) \<Rightarrow> (Inr reply, jobLogId, s2\<lparr>job_logs := logs\<rparr>))
                else (Inr reply, jobLogId, s2)))"

definition handler ::
  "(string \<Rightarrow> jsnum) \<Rightarrow> targets_fun \<Rightarrow> string \<Rightarrow> job_env \<Rightarrow> stock_query list \<Rightarrow> job_log list \<Rightarrow> (error + job_response) \<times> job_state" where
  "handler toNumber calculateTargets today env tbl logs =
     (case job_try toNumber calculateTargets today env
             \<lparr>stock_queries = tbl, job_logs = logs, results = [], errors = []\<rparr> of
        (Inr reply, jobLogId, s) \<Rightarrow> (Inr reply, s)
      | (Inl err, jobLogId, s) \<Rightarrow> top_level_catch err jobLogId env s)"


section \<open>app/api/stock: the analysis of a single symbol\<close>

text \<open>
  The route reads the result of \<open>getTopBroker\<close> without a test for \<open>null\<close>. Both copies
  of lib/stockbit can stand behind the import, so the two functions the route takes
  from it are the parameters \<open>topBroker\<close> (\<open>Inl\<close> what it throws, \<open>Inr None\<close> for
  \<open>null\<close>) and \<open>summaryOf\<close>. Every error thrown in the route is answered with the
  status 500 and the error's message. The record is saved without being awaited, and
  an error of the store is logged only; the save is applied here before the reply.
\<close>

record StockInput =
  input_emiten :: string
  fromDate :: string
  toDate :: string

record stock_env =
  stock_fetched :: "error + (MarketDetectorResponse option \<times> OrderbookResponse)"
  stock_save_answer :: "error option"

record 'b StockAnalysisResult =
  stockbitData :: BrokerData
  marketData :: MarketData
  calculated :: CalculatedTargets
  brokerSummary :: 'b

datatype 'b stock_response =
    BadRequest string
  | ServerError string
  | Success "'b StockAnalysisResult"

fun route_message :: "error \<Rightarrow> string" where
  "route_message (Thrown t) = ''Unknown error occurred''"
| "route_message e = errorMessage e"

definition current_copy :: "(string \<Rightarrow> jsnum) \<Rightarrow> MarketDetectorResponse option \<Rightarrow> error + BrokerData option" where
  "current_copy toNumber m = Inr (getTopBroker toNumber m)"

definition old_copy :: "(string \<Rightarrow> jsnum) \<Rightarrow> MarketDetectorResponse option \<Rightarrow> error + BrokerData option" where
  "old_copy toNumber m =
     (case getTopBroker_old toNumber m of Inl e \<Rightarrow> Inl e | Inr b \<Rightarrow> Inr (Some b))"

definition parseLot :: "(string \<Rightarrow> jsnum) \<Rightarrow> string \<Rightarrow> jsnum" where
  "parseLot toNumber lotStr = (if lotStr = [] then Num 0 else toNumber (remove_commas lotStr))"

definition stock_marketData :: "(string \<Rightarrow> jsnum) \<Rightarrow> OrderbookData \<Rightarrow> error + MarketData" where
  "stock_marketData toNumber obData =
     (case total_bid_offer obData of
        None \<Rightarrow> Inl (Error ''Invalid Orderbook API response structure'')
      | Some t \<Rightarrow>
          (case close obData of
             None \<Rightarrow> Inl (Error ''Invalid Orderbook API response structure'')
           | Some c \<Rightarrow>
               (let offerPrices = map toNumber (case offer obData of None \<Rightarrow> [] | Some xs \<Rightarrow> xs);
                    bidPrices = map toNumber (case bid obData of None \<Rightarrow> [] | Some xs \<Rightarrow> xs)
                in Inr \<lparr>harga = c,
                        offerTeratas =
                          (if length offerPrices > 0 then Math_max offerPrices
                           else (case high obData of None \<Rightarrow> Num 0
                                 | Some h \<Rightarrow> if truthy_num h then h else Num 0)),
                        bidTerbawah = (if length bidPrices > 0 then Math_min bidPrices else Num 0),
                        totalBid = parseLot toNumber (bid_lot t),
                        totalOffer = parseLot toNumber (offer_lot t)\<rparr>)))"

definition stock_payload :: "StockInput \<Rightarrow> BrokerData \<Rightarrow> MarketData \<Rightarrow> CalculatedTargets \<Rightarrow> payload" where
  "stock_payload body brokerData md c =
     \<lparr>from_date = Given (fromDate body),
      to_date = Given (toDate body),
      emiten = input_emiten body,
      sector = Absent,
      bandar_col = Given (bandar brokerData),
      barang_bandar = Given (barangBandar brokerData),
      rata_rata_bandar = Given (rataRataBandar brokerData),
      harga_col = Given (harga md),
      ara = Given (offerTeratas md),
      arb = Given (bidTerbawah md),
      fraksi_col = Given (fraksi c),
      total_bid = Given (totalBid md),
      total_offer = Given (totalOffer md),
      total_papan = Given (totalPapan c),
      rata_rata_bid_ofer = Given (rataRataBidOfer c),
      a_col = Given (calc_a c),
      p_col = Given (calc_p c),
      target_realistis = Given (targetRealistis1 c),
      target_max = Given (targetMax c),
      status_col = Absent,
      error_message = Absent\<rparr>"

definition stock_try ::
  "(string \<Rightarrow> jsnum) \<Rightarrow> targets_fun \<Rightarrow> (MarketDetectorResponse option \<Rightarrow> error + BrokerData option) \<Rightarrow>
   (MarketDetectorResponse option \<Rightarrow> error + 'b) \<Rightarrow>
   StockInput \<Rightarrow> stock_env \<Rightarrow> stock_query list \<Rightarrow> error + 'b StockAnalysisResult \<times> stock_query list" where
  "stock_try toNumber calculateTargets topBroker summaryOf body env tbl =
     (case stock_fetched env of
        Inl err \<Rightarrow> Inl err
      | Inr (marketDetectorData, orderbookData) \<Rightarrow>
          (case topBroker marketDetectorData of
             Inl err \<Rightarrow> Inl err
           | Inr brokerData \<Rightarrow>
               (case summaryOf marketDetectorData of
                  Inl err \<Rightarrow> Inl err
                | Inr summary \<Rightarrow>
                    (case stock_marketData toNumber (obData_of orderbookData) of
                       Inl err \<Rightarrow> Inl err
                     | Inr md \<Rightarrow>
                         (case brokerData of
                            None \<Rightarrow> Inl (TypeError ''Cannot read properties of null (reading 'rataRataBandar')'')
                          | Some b \<Rightarrow>
                              (case calculateTargets (rataRataBandar b) (barangBandar b)
                                      (offerTeratas md) (bidTerbawah md)
                                      (div100 (totalBid md)) (div100 (totalOffer md)) (harga md) of
                                 Inl err \<Rightarrow> Inl err
                               | Inr c \<Rightarrow>
                                   Inr (\<lparr>stockbitData = b, marketData = md, calculated = c,
                                         brokerSummary = summary\<rparr>,
                                        snd (saveStockQuery (stock_save_answer env)
                                               (stock_payload body b md c) tbl))))))))"

definition stock_POST ::
  "(string \<Rightarrow> jsnum) \<Rightarrow> targets_fun \<Rightarrow> (MarketDetectorResponse option \<Rightarrow> error + BrokerData option) \<Rightarrow>
   (MarketDetectorResponse option \<Rightarrow> error + 'b) \<Rightarrow>
   StockInput \<Rightarrow> stock_env \<Rightarrow> stock_query list \<Rightarrow> 'b stock_response \<times> stock_query list" where
  "stock_POST toNumber calculateTargets topBroker summaryOf body env tbl =
     (if input_emiten body = [] \<or> fromDate body = [] \<or> toDate body = []
      then (BadRequest ''Missing required fields: emiten, fromDate, toDate'', tbl)
      else (case stock_try toNumber calculateTargets topBroker summaryOf body env tbl of
              Inl err \<Rightarrow> (ServerError (route_message err), tbl)
            | Inr (result, tbl') \<Rightarrow> (Success result, tbl')))"


section \<open>Notions used in the statements\<close>



text \<open>The summary of a detector of which everything is missing.\<close>

definition default_detector :: DetectorSummary where
  "default_detector =
     \<lparr>d_top1 = default_stat, d_top3 = default_stat, d_top5 = default_stat, d_avg = default_stat,
      d_total_buyer = Num 0, d_total_seller = Num 0, d_number_broker_buysell = Num 0,
      d_broker_accdist = ''-'', d_volume = Num 0, d_value = Num 0, d_average = Num 0\<rparr>"

text \<open>
  An error message is token-related when it contains one of the four substrings;
  \<open>sublist u t\<close> says that \<open>t = ps @ u @ ss\<close> for some \<open>ps\<close> and \<open>ss\<close>.
\<close>

definition token_related :: "string \<Rightarrow> bool" where
  "token_related errorMsg =
     (sublist ''401'' errorMsg \<or> sublist ''unauthorized'' errorMsg \<or>
      sublist ''token'' errorMsg \<or> sublist ''authentication'' errorMsg)"

text \<open>
  The id of a run's job log when the top-level \<open>catch\<close> is entered: the log the run
  created, or else the one the \<open>catch\<close> creates.
\<close>

definition run_log_id :: "nat option \<Rightarrow> job_log list \<Rightarrow> nat" where
  "run_log_id jobLogId logs = (if has_log jobLogId then the jobLogId else fresh_job_id logs)"

text \<open>
  The table has a successful analysis of symbol \<open>e\<close> for the day; the entry which the
  per-symbol \<open>catch\<close> writes; the store has written an appended entry.
\<close>

definition analysed_row :: "string \<Rightarrow> string \<Rightarrow> stock_query list \<Rightarrow> bool" where
  "analysed_row today e tbl =
     (\<exists>r\<in>set tbl. from_date r = Some today \<and> emiten r = e \<and> status_col r = Some ''success'')"

definition error_entry :: "string \<Rightarrow> string \<Rightarrow> log_entry" where
  "error_entry e errorMsg =
     \<lparr>level = Err,
      entry_message = (if isTokenError errorMsg then ''Token authentication failed'' else errorMsg),
      entry_emiten = Some e,
      entry_details = Failed (isTokenError errorMsg) errorMsg\<rparr>"

fun written :: "append_answer \<Rightarrow> bool" where
  "written RpcDone = True"
| "written (RpcMissing selected updated) = updated"
| "written RpcError = False"

text \<open>
  The unique constraint on \<open>(from_date, emiten)\<close>: no two rows with a date have the same
  pair. A row holds the values of a payload when each column that the payload names
  has the payload's value as the request carries it: the value given, or \<open>NULL\<close> for
  an undefined property and for a number that JSON cannot write.
\<close>

definition row_key :: "stock_query \<Rightarrow> string option \<times> string" where
  "row_key r = (from_date r, emiten r)"

definition key_unique :: "stock_query list \<Rightarrow> bool" where
  "key_unique tbl = distinct (map row_key (filter (\<lambda>r. from_date r \<noteq> None) tbl))"

fun kept_str :: "string property \<Rightarrow> string option \<Rightarrow> bool" where
  "kept_str Absent c = True"
| "kept_str Undefined c = (c = None)"
| "kept_str (Given x) c = (c = Some x)"

fun kept_num :: "jsnum property \<Rightarrow> real option \<Rightarrow> bool" where
  "kept_num Absent c = True"
| "kept_num Undefined c = (c = None)"
| "kept_num (Given n) c = (c = json_number n)"

definition holds_values :: "payload \<Rightarrow> stock_query \<Rightarrow> bool" where
  "holds_values d r =
     (kept_str (from_date d) (from_date r) \<and> kept_str (to_date d) (to_date r) \<and>
      emiten r = emiten d \<and> kept_str (sector d) (sector r) \<and>
      kept_str (bandar_col d) (bandar_col r) \<and>
      kept_num (barang_bandar d) (barang_bandar r) \<and>
      kept_num (rata_rata_bandar d) (rata_rata_bandar r) \<and>
      kept_num (harga_col d) (harga_col r) \<and> kept_num (ara d) (ara r) \<and>
      kept_num (arb d) (arb r) \<and> kept_num (fraksi_col d) (fraksi_col r) \<and>
      kept_num (total_bid d) (total_bid r) \<and> kept_num (total_offer d) (total_offer r) \<and>
      kept_num (total_papan d) (total_papan r) \<and>
      kept_num (rata_rata_bid_ofer d) (rata_rata_bid_ofer r) \<and>
      kept_num (a_col d) (a_col r) \<and> kept_num (p_col d) (p_col r) \<and>
      kept_num (target_realistis d) (target_realistis r) \<and>
      kept_num (target_max d) (target_max r) \<and>
      kept_str (status_col d) (status_col r) \<and>
      kept_str (error_message d) (error_message r))"


section \<open>Data for the examples\<close>

text \<open>
  \<open>decimalNumber\<close> is \<open>Number\<close> on plain decimal numerals (a sign, digits, a fraction
  part) and on the empty string; every other string is \<open>NaN\<close> here. It stands for
  \<open>toNumber\<close> in the examples, whose strings are of that form or, as \<open>''abc''\<close>, not
  numeric at all.
\<close>

definition digit_val :: "char \<Rightarrow> nat option" where
  "digit_val c =
     map_of [(CHR ''0'', 0), (CHR ''1'', 1), (CHR ''2'', 2), (CHR ''3'', 3), (CHR ''4'', 4),
             (CHR ''5'', 5), (CHR ''6'', 6), (CHR ''7'', 7), (CHR ''8'', 8), (CHR ''9'', 9)] c"

fun digits_value :: "string \<Rightarrow> nat \<Rightarrow> nat option" where
  "digits_value [] acc = Some acc"
| "digits_value (c # cs) acc =
     (case digit_val c of None \<Rightarrow> None | Some d \<Rightarrow> digits_value cs (10 * acc + d))"

definition unsigned_decimal :: "string \<Rightarrow> real option" where
  "unsigned_decimal t =
     (let ip = takeWhile (\<lambda>c. c \<noteq> CHR ''.'') t;
          fp = drop 1 (dropWhile (\<lambda>c. c \<noteq> CHR ''.'') t)
      in if ip = [] \<and> fp = [] then None
         else (case digits_value ip 0 of
                 None \<Rightarrow> None
               | Some i \<Rightarrow>
                   (case digits_value fp 0 of
                      None \<Rightarrow> None
                    | Some f \<Rightarrow> Some (real i + real f / 10 ^ length fp))))"

definition decimalNumber :: "string \<Rightarrow> jsnum" where
  "decimalNumber t =
     (case t of
        [] \<Rightarrow> Num 0
      | c # cs \<Rightarrow>
          if c = CHR ''-'' then (case unsigned_decimal cs of None \<Rightarrow> NaN | Some x \<Rightarrow> Num (- x))
          else if c = CHR ''+'' then (case unsigned_decimal cs of None \<Rightarrow> NaN | Some x \<Rightarrow> Num x)
          else (case unsigned_decimal t of None \<Rightarrow> NaN | Some x \<Rightarrow> Num x))"

definition sample_row :: session_row where
  "sample_row = \<lparr>session_value = Some ''stored-jwt'', is_valid = Some True, last_used_at = None\<rparr>"

definition sample_api :: api_state where
  "sample_api =
     \<lparr>cachedToken = Some ''cached-jwt'', tokenLastFetched = 1000,
      session = [''stockbit_token'' \<mapsto> sample_row],
      env_STOCKBIT_JWT_TOKEN = Some ''env-jwt'', store_log = []\<rparr>"

text \<open>Brokers and market-detector responses.\<close>

definition broker :: "string \<Rightarrow> string \<Rightarrow> string \<Rightarrow> string \<Rightarrow> BrokerBuyItem" where
  "broker code v lot price =
     \<lparr>netbs_broker_code = code, bval = v, blot = lot, netbs_buy_avg_price = price,
      buy_type = ''BROKER_TYPE_LOCAL''\<rparr>"

definition sample_brokers :: "BrokerBuyItem list" where
  "sample_brokers =
     [broker ''YP'' ''100'' ''10'' ''50'', broker ''CC'' ''300'' ''20.4'' ''61.5'',
      broker ''AK'' ''200'' ''30'' ''70'']"


definition md_with :: "BrokerBuyItem array_field \<Rightarrow> MarketDetectorResponse option" where
  "md_with bs =
     Some \<lparr>data = Some \<lparr>broker_summary = Some \<lparr>brokers_buy = bs, brokers_sell = Missing\<rparr>,
                        bandar_detector = None\<rparr>\<rparr>"

text \<open>
  An order book, a watchlist item and what the world answers for it, a job log and the
  state of a run that has created it, and a request to the single-stock route.
  \<open>sample_targets\<close> stands for \<open>calculateTargets\<close> in the examples.
\<close>

definition sample_orderbook :: OrderbookResponse where
  "sample_orderbook =
     Wrapped \<lparr>close = Some (Num 4500), high = Some (Num 4600),
              offer = Some [''4510'', ''4520''], bid = Some [''4490'', ''4480''],
              total_bid_offer = Some \<lparr>bid_lot = ''12,000'', offer_lot = ''8,000''\<rparr>\<rparr>"

definition sample_targets :: targets_fun where
  "sample_targets avgPrice lots topOffer lowBid bidLots offerLots price =
     Inr \<lparr>fraksi = Num 5, totalPapan = bidLots, rataRataBidOfer = offerLots,
          calc_a = avgPrice, calc_p = lots,
          targetRealistis1 = topOffer, targetMax = lowBid\<rparr>"

definition item_of :: "string \<Rightarrow> WatchlistItem" where
  "item_of e = \<lparr>symbol = e, company_code = e\<rparr>"

definition env_of ::
  "error + (MarketDetectorResponse option \<times> OrderbookResponse \<times> string option) \<Rightarrow> item_env" where
  "env_of f =
     \<lparr>fetched = f, save_answer = None, history = Inr [], find_answer = None,
      update_answer = None, log_answer = RpcDone\<rparr>"

definition running_log :: job_log where
  "running_log =
     \<lparr>job_id = 1, job_name = ''analyze-watchlist'', job_status = ''running'', total_items = 1,
      log_entries = [], success_count = None, error_count = None, job_error_message = None,
      metadata_isTokenError = None, completed = False\<rparr>"

definition started :: job_state where
  "started = \<lparr>stock_queries = [], job_logs = [running_log], results = [], errors = []\<rparr>"

definition sample_body :: StockInput where
  "sample_body = \<lparr>input_emiten = ''BBCA'', fromDate = ''2024-01-02'', toDate = ''2024-01-02''\<rparr>"

definition stock_env_of :: "MarketDetectorResponse option \<Rightarrow> stock_env" where
  "stock_env_of m = \<lparr>stock_fetched = Inr (m, sample_orderbook), stock_save_answer = None\<rparr>"


section \<open>The token cache\<close>


text \<open>
  C6. \<open>getAuthToken\<close> answers from the cache, sending nothing to the session store,
  exactly when the cache holds a token fetched less than 60000 milliseconds before
  \<open>now\<close>, and the state is then unchanged. Otherwise it reads \<open>stockbit_token\<close> from the
  store; a token found there is returned and cached with the time \<open>now\<close>; when the store
  has none, the cache is left as it was and the environment variable is returned, or,
  when that is missing too, the error is thrown.
\<close>

theorem getAuthToken_cache_and_fallback:
  "((\<exists>t. cachedToken s = Some t \<and> t \<noteq> [] \<and> now - tokenLastFetched s < 60000)
      \<longleftrightarrow> fst (getAuthToken now s) = Inr (the (cachedToken s)) \<and>
          store_log (snd (getAuthToken now s)) = store_log s) \<and>
   ((\<exists>t. cachedToken s = Some t \<and> t \<noteq> [] \<and> now - tokenLastFetched s < 60000)
      \<longrightarrow> snd (getAuthToken now s) = s) \<and>
   (\<not> (\<exists>t. cachedToken s = Some t \<and> t \<noteq> [] \<and> now - tokenLastFetched s < 60000) \<longrightarrow>
      store_log (snd (getAuthToken now s)) = store_log s @ [Select ''stockbit_token''] \<and>
      session (snd (getAuthToken now s)) = session s \<and>
      (\<forall>row tok. session s ''stockbit_token'' = Some row \<and> session_value row = Some tok \<and> tok \<noteq> [] \<longrightarrow>
         fst (getAuthToken now s) = Inr tok \<and>
         cachedToken (snd (getAuthToken now s)) = Some tok \<and>
         tokenLastFetched (snd (getAuthToken now s)) = now) \<and>
      (\<not> (\<exists>row tok. session s ''stockbit_token'' = Some row \<and> session_value row = Some tok \<and> tok \<noteq> []) \<longrightarrow>
         cachedToken (snd (getAuthToken now s)) = cachedToken s \<and>
         tokenLastFetched (snd (getAuthToken now s)) = tokenLastFetched s \<and>
         (\<forall>tok. env_STOCKBIT_JWT_TOKEN s = Some tok \<and> tok \<noteq> [] \<longrightarrow>
            fst (getAuthToken now s) = Inr tok) \<and>
         (\<not> (\<exists>tok. env_STOCKBIT_JWT_TOKEN s = Some tok \<and> tok \<noteq> []) \<longrightarrow>
            fst (getAuthToken now s) =
              Inl (Error ''STOCKBIT_JWT_TOKEN not found in database or environment''))))"
  by (auto simp: getAuthToken_def getSessionValue_def TOKEN_CACHE_DURATION_def Let_def truthy_str_def
           split: option.splits prod.splits)

theorem getAuthToken_cache_and_fallback_witness:
  "fst (getAuthToken 2000 sample_api) = Inr ''cached-jwt'' \<and>
   store_log (snd (getAuthToken 2000 sample_api)) = [] \<and>
   fst (getAuthToken 61000 sample_api) = Inr ''stored-jwt'' \<and>
   store_log (snd (getAuthToken 61000 sample_api)) = [Select ''stockbit_token''] \<and>
   cachedToken (snd (getAuthToken 61000 sample_api)) = Some ''stored-jwt'' \<and>
   fst (getAuthToken 61000 (sample_api\<lparr>session := Map.empty\<rparr>)) = Inr ''env-jwt'' \<and>
   cachedToken (snd (getAuthToken 61000 (sample_api\<lparr>session := Map.empty\<rparr>))) = Some ''cached-jwt'' \<and>
   fst (getAuthToken 61000 (sample_api\<lparr>session := Map.empty, env_STOCKBIT_JWT_TOKEN := None\<rparr>))
     = Inl (Error ''STOCKBIT_JWT_TOKEN not found in database or environment'')"
  using getAuthToken_cache_and_fallback [of sample_api 2000]
        getAuthToken_cache_and_fallback [of sample_api 61000]
        getAuthToken_cache_and_fallback [of "sample_api\<lparr>session := Map.empty\<rparr>" 61000]
        getAuthToken_cache_and_fallback
          [of "sample_api\<lparr>session := Map.empty, env_STOCKBIT_JWT_TOKEN := None\<rparr>" 61000]
  by (simp add: sample_api_def sample_row_def)







section \<open>The leading broker and the broker summary\<close>

subsection \<open>The order of numbers and the sort\<close>




































subsection \<open>The leading broker\<close>




subsection \<open>The two copies on a missing broker list\<close>

lemma no_brokers_current:
  "brokers_of m = Missing \<or> brokers_of m = NotArray \<or> brokers_of m = Array [] \<Longrightarrow>
   getTopBroker toNumber m = None"
  by (auto simp: getTopBroker_def)

lemma no_brokers_old:
  "brokers_of m = Missing \<or> brokers_of m = NotArray \<or> brokers_of m = Array [] \<Longrightarrow>
   getTopBroker_old toNumber m = Inl (Error ''No broker data found in data.broker_summary.brokers_buy'')"
  by (auto simp: getTopBroker_old_def)

lemma stock_try_null:
  "stock_fetched env = Inr (m, ob) \<Longrightarrow> getTopBroker toNumber m = None \<Longrightarrow>
   \<exists>err. stock_try toNumber calc (current_copy toNumber) summaryOf body env tbl = Inl err"
  by (simp add: stock_try_def current_copy_def split: sum.splits)

text \<open>
  C5. When \<open>brokers_buy\<close> is missing, not an array or empty, the current copy of
  \<open>getTopBroker\<close> returns \<open>null\<close> and the older copy throws. In the batch job the
  symbol is then skipped: the error list gets the entry \<open>No broker data available\<close>,
  and so does the job log when the run has one, nothing is saved, and the loop goes on
  with the rest. The single-stock route answers with the status 500: with the older
  copy of the library the message is the one thrown by \<open>getTopBroker\<close>, with the
  current copy that of some error raised later in the route.
\<close>

theorem getTopBroker_copies_disagree:
  assumes "brokers_of m = Missing \<or> brokers_of m = NotArray \<or> brokers_of m = Array []"
  shows "getTopBroker toNumber m = None \<and>
         getTopBroker_old toNumber m =
           Inl (Error ''No broker data found in data.broker_summary.brokers_buy'') \<and>
         (fetched env = Inr (m, ob, info) \<longrightarrow>
            analyze_items toNumber calc today jobLogId ((item, env) # rest) s =
              analyze_items toNumber calc today jobLogId rest
                (log_if (log_answer env) jobLogId
                   \<lparr>level = Warn, entry_message = ''No broker data available'',
                    entry_emiten = Some (emiten_of item), entry_details = NoDetails\<rparr>
                   (s\<lparr>errors := errors s @ [(emiten_of item, ''No broker data available'')]\<rparr>))) \<and>
         (stock_fetched senv = Inr (m, ob) \<and>
          input_emiten body \<noteq> [] \<and> fromDate body \<noteq> [] \<and> toDate body \<noteq> [] \<longrightarrow>
            stock_POST toNumber calc (old_copy toNumber) getBrokerSummary_old body senv tbl =
              (ServerError ''No broker data found in data.broker_summary.brokers_buy'', tbl) \<and>
            (\<exists>msg. stock_POST toNumber calc (current_copy toNumber) getBrokerSummary body senv tbl =
                      (ServerError msg, tbl)))"
proof -
  have cur: "getTopBroker toNumber m = None" using assms by (rule no_brokers_current)
  have old: "getTopBroker_old toNumber m =
               Inl (Error ''No broker data found in data.broker_summary.brokers_buy'')"
    using assms by (rule no_brokers_old)
  have batch: "analyze_item toNumber calc today jobLogId (item, env) s =
                 log_if (log_answer env) jobLogId
                   \<lparr>level = Warn, entry_message = ''No broker data available'',
                    entry_emiten = Some (emiten_of item), entry_details = NoDetails\<rparr>
                   (s\<lparr>errors := errors s @ [(emiten_of item, ''No broker data available'')]\<rparr>)"
    if "fetched env = Inr (m, ob, info)"
    using that cur by (simp add: analyze_item_def item_try_def Let_def)
  have route_old: "stock_POST toNumber calc (old_copy toNumber) getBrokerSummary_old body senv tbl =
              (ServerError ''No broker data found in data.broker_summary.brokers_buy'', tbl)"
    if "stock_fetched senv = Inr (m, ob)" "input_emiten body \<noteq> []" "fromDate body \<noteq> []" "toDate body \<noteq> []"
    using that old by (simp add: stock_POST_def stock_try_def old_copy_def)
  have route_cur: "\<exists>msg. stock_POST toNumber calc (current_copy toNumber) getBrokerSummary body senv tbl
                          = (ServerError msg, tbl)"
    if f: "stock_fetched senv = Inr (m, ob)"
      and v: "input_emiten body \<noteq> []" "fromDate body \<noteq> []" "toDate body \<noteq> []"
  proof -
    obtain err where "stock_try toNumber calc (current_copy toNumber) getBrokerSummary body senv tbl = Inl err"
      using stock_try_null [OF f cur] by blast
    then show ?thesis using v by (simp add: stock_POST_def)
  qed
  show ?thesis
    using cur old batch route_old route_cur by simp
qed

theorem getTopBroker_copies_disagree_witness:
  "getTopBroker decimalNumber (md_with Missing) = None \<and>
   getTopBroker_old decimalNumber (md_with Missing)
     = Inl (Error ''No broker data found in data.broker_summary.brokers_buy'') \<and>
   analyze_items decimalNumber sample_targets ''2024-01-02'' (Some 1)
     [(item_of ''BBCA'', env_of (Inr (md_with Missing, sample_orderbook, None)))] started
     = \<lparr>stock_queries = [],
        job_logs = [running_log\<lparr>log_entries :=
                      [\<lparr>level = Warn, entry_message = ''No broker data available'',
                        entry_emiten = Some ''BBCA'', entry_details = NoDetails\<rparr>]\<rparr>],
        results = [], errors = [(''BBCA'', ''No broker data available'')]\<rparr> \<and>
   stock_POST decimalNumber sample_targets (old_copy decimalNumber) getBrokerSummary_old
       sample_body (stock_env_of (md_with Missing)) []
     = (ServerError ''No broker data found in data.broker_summary.brokers_buy'', []) \<and>
   stock_POST decimalNumber sample_targets (current_copy decimalNumber) getBrokerSummary
       sample_body (stock_env_of (md_with Missing)) []
     = (ServerError ''Cannot read properties of null (reading 'rataRataBandar')'', [])"
  using getTopBroker_copies_disagree
          [of "md_with Missing" decimalNumber
              "env_of (Inr (md_with Missing, sample_orderbook, None))" sample_orderbook None
              sample_targets "''2024-01-02''" "Some 1" "item_of ''BBCA''" "[]" started
              "stock_env_of (md_with Missing)" sample_body "[]"]
  apply (simp add: brokers_of_def summary_of_def md_with_def env_of_def stock_env_of_def sample_body_def)
  apply (simp add: log_if_def has_log_def appendBackgroundJobLogEntry_def started_def running_log_def
      emiten_of_def item_of_def)
  apply (simp add: stock_POST_def stock_try_def current_copy_def getTopBroker_def brokers_of_def
      summary_of_def md_with_def getBrokerSummary_def detector_of_def slice4_or_empty_def
      stock_marketData_def sample_orderbook_def stock_env_of_def sample_body_def Let_def)
  done

subsection \<open>The broker summary\<close>

lemma slice4_or_empty_Inr:
  "xs \<noteq> NotArray \<Longrightarrow> \<exists>ys. slice4_or_empty what xs = Inr ys \<and> length ys \<le> 4 \<and> (xs = Missing \<longrightarrow> ys = [])"
  by (cases xs) (simp_all add: slice4_or_empty_def)

text \<open>
  C10, as amended. For every response in which \<open>brokers_buy\<close> and \<open>brokers_sell\<close> are
  each missing or an array, whatever else is missing, \<open>getBrokerSummary\<close> returns a
  summary: \<open>topBuyers\<close> and \<open>topSellers\<close> have at most four elements and are empty when
  the broker summary is missing, and the detector is the one of zeros and dashes when
  the detector is missing.
\<close>

theorem getBrokerSummary_total_on_arrays:
  assumes "\<forall>b. summary_of m = Some b \<longrightarrow> brokers_buy b \<noteq> NotArray \<and> brokers_sell b \<noteq> NotArray"
  shows "\<exists>d. getBrokerSummary m = Inr d \<and>
              length (topBuyers d) \<le> 4 \<and> length (topSellers d) \<le> 4 \<and>
              (detector_of m = None \<longrightarrow> detector d = default_detector) \<and>
              (summary_of m = None \<longrightarrow> topBuyers d = [] \<and> topSellers d = [])"
proof -
  let ?buy = "case summary_of m of None \<Rightarrow> Missing | Some b \<Rightarrow> brokers_buy b"
  let ?sell = "case summary_of m of None \<Rightarrow> Missing | Some b \<Rightarrow> brokers_sell b"
  have nb: "?buy \<noteq> NotArray" and ns: "?sell \<noteq> NotArray"
    using assms by (auto split: option.splits)
  obtain bu where
    bu: "slice4_or_empty ''brokerSummary?.brokers_buy?'' ?buy = Inr bu" "length bu \<le> 4"
        "?buy = Missing \<longrightarrow> bu = []"
    using slice4_or_empty_Inr [OF nb] by blast
  obtain se where
    se: "slice4_or_empty ''brokerSummary?.brokers_sell?'' ?sell = Inr se" "length se \<le> 4"
        "?sell = Missing \<longrightarrow> se = []"
    using slice4_or_empty_Inr [OF ns] by blast
  have dflt: "detector_of m = None \<Longrightarrow>
      \<lparr>d_top1 = stat_or_default (detector_of m) top1, d_top3 = stat_or_default (detector_of m) top3,
       d_top5 = stat_or_default (detector_of m) top5, d_avg = stat_or_default (detector_of m) avg,
       d_total_buyer = num_or_zero (detector_of m) total_buyer,
       d_total_seller = num_or_zero (detector_of m) total_seller,
       d_number_broker_buysell = num_or_zero (detector_of m) number_broker_buysell,
       d_broker_accdist = str_or_dash (detector_of m) broker_accdist,
       d_volume = num_or_zero (detector_of m) volume,
       d_value = num_or_zero (detector_of m) detector_value,
       d_average = num_or_zero (detector_of m) average\<rparr> = default_detector"
    by (simp add: default_detector_def stat_or_default_def num_or_zero_def str_or_dash_def)
  show ?thesis
    using bu se dflt by (simp add: getBrokerSummary_def Let_def)
qed

theorem getBrokerSummary_total_on_arrays_witness:
  "getBrokerSummary None = Inr \<lparr>detector = default_detector, topBuyers = [], topSellers = []\<rparr> \<and>
   getBrokerSummary (md_with (Array sample_brokers))
     = Inr \<lparr>detector = default_detector, topBuyers = sample_brokers, topSellers = []\<rparr>"
  using getBrokerSummary_total_on_arrays [of None]
        getBrokerSummary_total_on_arrays [of "md_with (Array sample_brokers)"]
  by (auto simp: summary_of_def detector_of_def md_with_def getBrokerSummary_def slice4_or_empty_def
        sample_brokers_def)

text \<open>
  When \<open>brokers_buy\<close> is a number, a boolean or an object, \<open>getBrokerSummary\<close> throws.
\<close>

theorem getBrokerSummary_throws_on_non_array:
  "getBrokerSummary (md_with NotArray)
     = Inl (TypeError ''brokerSummary?.brokers_buy?.slice is not a function'')"
  by (simp add: getBrokerSummary_def md_with_def summary_of_def detector_of_def slice4_or_empty_def Let_def)

end
